theory Spec2Isabelle
  imports Main "HOL-Library.Word"
begin

section \<open>The S3 client of \<^verbatim>\<open>source/s3_client.c\<close>\<close>

text \<open>
  The file holds two things: the life cycle of the reference-counted client
  (\<^verbatim>\<open>aws_s3_client_new\<close>, \<^verbatim>\<open>aws_s3_client_acquire\<close>, \<^verbatim>\<open>aws_s3_client_release\<close>,
  \<^verbatim>\<open>s_s3_client_dec_shutdown_wait_count\<close>) and the callback chain that drives one request
  (\<^verbatim>\<open>s3_client_make_request\<close>, \<^verbatim>\<open>s_s3_client_signing_complete\<close>,
  \<^verbatim>\<open>s_s3_client_on_acquire_connection\<close>, the three data hooks and
  \<^verbatim>\<open>s_s3_client_stream_complete\<close>).

  Pointers are opaque handles, \<open>None\<close> being \<^verbatim>\<open>NULL\<close>. Every call the file makes on a
  collaborator (allocator, credentials provider, connection manager, signer, HTTP library,
  Request object) is appended to a log, with its arguments, in the order of the C
  statements. What a collaborator answers is an input of the model.

  An \<^verbatim>\<open>AWS_PRECONDITION\<close> on a pointer argument is met by the type of the argument wherever
  that type has no \<^verbatim>\<open>NULL\<close> (a handle, or the struct behind the pointer). The connection
  handed to \<^verbatim>\<open>s_s3_client_on_acquire_connection\<close> is the one argument that can be \<^verbatim>\<open>NULL\<close>
  here, and its precondition is a branch of the model. \<^verbatim>\<open>AWS_LOGF_ERROR\<close> lines write a
  diagnostic and are left out.
\<close>

subsection \<open>Data\<close>

type_synonym handle = nat

text \<open>\<^verbatim>\<open>size_t\<close>, the value type of the two atomic counters (an LP64 target).\<close>
type_synonym size_t = "64 word"

datatype aws_common_error = AWS_ERROR_INVALID_ARGUMENT

record aws_s3_client_config =
  cfg_client_bootstrap :: "handle option"
  cfg_credentials_provider :: "handle option"
  cfg_region :: string
  cfg_endpoint :: string
  cfg_shutdown_callback :: "handle option"
  cfg_shutdown_callback_user_data :: "handle option"

text \<open>
  Modelled from the spec: \<^verbatim>\<open>struct aws_s3_client\<close> is declared in
  \<^verbatim>\<open>aws/s3/private/s3_client_impl.h\<close>, which is not among the sources. The fields are the
  ones this file reads and writes, which are the attributes the specification lists for
  the Client (allocator, the two counters, the provider and pool handles, the two strings,
  the shutdown callback and its context).
\<close>
record aws_s3_client =
  allocator :: "handle option"
  ref_count :: size_t
  shutdown_wait_count :: size_t
  client_bootstrap :: "handle option"
  credentials_provider :: "handle option"
  shutdown_callback :: "handle option"
  shutdown_callback_user_data :: "handle option"
  region :: "string option"
  endpoint :: "string option"
  connection_manager :: "handle option"

datatype manager_shutdown_callback = S_s3_client_connection_manager_shutdown_callback

text \<open>
  \<^verbatim>\<open>struct aws_http_connection_manager_options\<close> as the constructor fills it. The
  \<^verbatim>\<open>shutdown_complete_user_data\<close> is the client itself.
\<close>
record manager_options =
  mo_bootstrap :: "handle option"
  mo_initial_window_size :: size_t
  mo_connect_timeout_ms :: nat
  mo_host :: "string option"
  mo_port :: nat
  mo_max_connections :: nat
  mo_shutdown_complete_callback :: manager_shutdown_callback

text \<open>
  The calls of the life cycle. A call that can fail carries its result. \<open>Mem_release\<close>
  carries the contents of the struct at the moment it is given back.
\<close>
datatype effect =
    Raise_error aws_common_error
  | Mem_calloc handle bool
  | Mem_release "handle option" aws_s3_client
  | Credentials_provider_acquire "handle option"
  | Credentials_provider_release handle
  | String_new_from_array handle string bool
  | String_destroy string
  | Connection_manager_new handle manager_options "handle option"
  | Connection_manager_release handle
  | Invoke_shutdown_callback "handle option" "handle option"

text \<open>
  What the connection manager of this client is doing. The manager is an external
  collaborator: releasing its only reference starts an asynchronous shutdown, which it
  confirms later by one call of the registered shutdown callback.
\<close>
datatype manager_status = Manager_none | Manager_live | Manager_shutting_down | Manager_gone

text \<open>
  The part of the process state the life cycle touches: the memory behind the client
  pointer (\<open>None\<close> before \<^verbatim>\<open>aws_mem_calloc\<close> and after \<^verbatim>\<open>aws_mem_release\<close>), the manager, and
  the log.
\<close>
record world =
  client_mem :: "aws_s3_client option"
  manager :: manager_status
  effects :: "effect list"

text \<open>What the allocator and the connection manager answer during construction.\<close>
record alloc_outcomes =
  calloc_ok :: bool
  region_ok :: bool
  endpoint_ok :: bool
  manager_result :: "handle option"

subsection \<open>Collaborators of the life cycle\<close>

definition emit :: "effect \<Rightarrow> world \<Rightarrow> world" where
  "emit e w = w\<lparr>effects := effects w @ [e]\<rparr>"

definition aws_raise_error :: "aws_common_error \<Rightarrow> world \<Rightarrow> world" where
  "aws_raise_error err w = emit (Raise_error err) w"

definition aws_credentials_provider_acquire :: "handle option \<Rightarrow> world \<Rightarrow> world" where
  "aws_credentials_provider_acquire p w = emit (Credentials_provider_acquire p) w"

definition aws_credentials_provider_release :: "handle \<Rightarrow> world \<Rightarrow> world" where
  "aws_credentials_provider_release p w = emit (Credentials_provider_release p) w"

definition aws_string_new_from_array :: "handle \<Rightarrow> string \<Rightarrow> bool \<Rightarrow> world \<Rightarrow> string option \<times> world" where
  "aws_string_new_from_array alloc bytes ok w =
     ((if ok then Some bytes else None), emit (String_new_from_array alloc bytes ok) w)"

definition aws_string_destroy :: "string \<Rightarrow> world \<Rightarrow> world" where
  "aws_string_destroy s w = emit (String_destroy s) w"

definition aws_http_connection_manager_new ::
  "handle \<Rightarrow> manager_options \<Rightarrow> handle option \<Rightarrow> world \<Rightarrow> handle option \<times> world" where
  "aws_http_connection_manager_new alloc opts res w =
     (res, (emit (Connection_manager_new alloc opts res) w)
             \<lparr>manager := (if res = None then manager w else Manager_live)\<rparr>)"

definition aws_http_connection_manager_release :: "handle \<Rightarrow> world \<Rightarrow> world" where
  "aws_http_connection_manager_release m w =
     (emit (Connection_manager_release m) w)\<lparr>manager := Manager_shutting_down\<rparr>"

text \<open>\<^verbatim>\<open>aws_mem_release(client->allocator, client)\<close>: the struct is gone afterwards.\<close>
definition aws_mem_release :: "handle option \<Rightarrow> aws_s3_client \<Rightarrow> world \<Rightarrow> world" where
  "aws_mem_release alloc client w = (emit (Mem_release alloc client) w)\<lparr>client_mem := None\<rparr>"

text \<open>The memory \<^verbatim>\<open>aws_mem_calloc\<close> returns: every field zero.\<close>
definition zeroed_client :: aws_s3_client where
  "zeroed_client =
     \<lparr>allocator = None, ref_count = 0, shutdown_wait_count = 0, client_bootstrap = None,
      credentials_provider = None, shutdown_callback = None,
      shutdown_callback_user_data = None, region = None, endpoint = None,
      connection_manager = None\<rparr>"

definition SIZE_MAX :: size_t where
  "SIZE_MAX = - 1"

subsection \<open>The life cycle functions\<close>

text \<open>
  \<^verbatim>\<open>aws_s3_client_release\<close>. The struct \<open>client\<close> is the one behind the pointer; the
  function writes it back. Dropping to zero gives back what the client owns, field by
  field, and leaves the struct itself allocated.
\<close>
definition aws_s3_client_release :: "aws_s3_client \<Rightarrow> world \<Rightarrow> world" where
  "aws_s3_client_release client0 w0 =
     (let new_ref_count = ref_count client0 - 1;
          client = client0\<lparr>ref_count := new_ref_count\<rparr>
      in if new_ref_count > 0 then w0\<lparr>client_mem := Some client\<rparr>
         else
           let (client, w) =
                 (case credentials_provider client of
                    None \<Rightarrow> (client, w0)
                  | Some p \<Rightarrow> (client\<lparr>credentials_provider := None\<rparr>,
                               aws_credentials_provider_release p w0));
               (client, w) =
                 (case connection_manager client of
                    None \<Rightarrow> (client, w)
                  | Some m \<Rightarrow> (client\<lparr>connection_manager := None\<rparr>,
                               aws_http_connection_manager_release m w));
               (client, w) =
                 (case region client of
                    None \<Rightarrow> (client, w)
                  | Some r \<Rightarrow> (client\<lparr>region := None\<rparr>, aws_string_destroy r w));
               (client, w) =
                 (case endpoint client of
                    None \<Rightarrow> (client, w)
                  | Some e \<Rightarrow> (client\<lparr>endpoint := None\<rparr>, aws_string_destroy e w))
           in w\<lparr>client_mem := Some client\<rparr>)"

definition aws_s3_client_acquire :: "aws_s3_client \<Rightarrow> world \<Rightarrow> world" where
  "aws_s3_client_acquire client w = w\<lparr>client_mem := Some (client\<lparr>ref_count := ref_count client + 1\<rparr>)\<rparr>"

text \<open>The label \<^verbatim>\<open>error_clean_up\<close> of \<^verbatim>\<open>aws_s3_client_new\<close> (the client is not null there).\<close>
definition new_error_clean_up :: "aws_s3_client \<Rightarrow> world \<Rightarrow> bool \<times> world" where
  "new_error_clean_up client w = (False, aws_s3_client_release client w)"

text \<open>
  \<^verbatim>\<open>aws_s3_client_new\<close>. The result is \<open>True\<close> for the pointer to the new client (the
  struct is \<open>client_mem\<close> of the world returned) and \<open>False\<close> for \<^verbatim>\<open>NULL\<close>.
\<close>
definition aws_s3_client_new ::
  "handle \<Rightarrow> aws_s3_client_config \<Rightarrow> alloc_outcomes \<Rightarrow> world \<Rightarrow> bool \<times> world" where
  "aws_s3_client_new alloc client_config env w0 =
     (if cfg_client_bootstrap client_config = None
        then (False, aws_raise_error AWS_ERROR_INVALID_ARGUMENT w0)
      else if cfg_credentials_provider client_config = None
        then (False, aws_raise_error AWS_ERROR_INVALID_ARGUMENT w0)
      else if \<not> calloc_ok env
        then (False, emit (Mem_calloc alloc False) w0)
      else
        let w = (emit (Mem_calloc alloc True) w0)\<lparr>client_mem := Some zeroed_client\<rparr>;
            client = zeroed_client\<lparr>allocator := Some alloc, ref_count := 1,
                       client_bootstrap := cfg_client_bootstrap client_config,
                       credentials_provider := cfg_credentials_provider client_config\<rparr>;
            w = aws_credentials_provider_acquire (credentials_provider client) w;
            client = client\<lparr>shutdown_callback := cfg_shutdown_callback client_config,
                       shutdown_callback_user_data := cfg_shutdown_callback_user_data client_config,
                       shutdown_wait_count := 0\<rparr>;
            (r, w) = aws_string_new_from_array alloc (cfg_region client_config) (region_ok env) w;
            client = client\<lparr>region := r\<rparr>
        in if region client = None then new_error_clean_up client w
           else
             let (e, w) = aws_string_new_from_array alloc (cfg_endpoint client_config)
                            (endpoint_ok env) w;
                 client = client\<lparr>endpoint := e\<rparr>
             in if endpoint client = None then new_error_clean_up client w
                else
                  let manager_options =
                        \<lparr>mo_bootstrap = client_bootstrap client,
                         mo_initial_window_size = SIZE_MAX,
                         mo_connect_timeout_ms = 3 * 1000,
                         mo_host = endpoint client,
                         mo_port = 80,
                         mo_max_connections = 10,
                         mo_shutdown_complete_callback =
                           S_s3_client_connection_manager_shutdown_callback\<rparr>;
                      (m, w) = aws_http_connection_manager_new alloc manager_options
                                 (manager_result env) w;
                      client = client\<lparr>connection_manager := m\<rparr>
                  in if connection_manager client = None then new_error_clean_up client w
                     else (True, w\<lparr>client_mem := Some
                             (client\<lparr>shutdown_wait_count := shutdown_wait_count client + 1\<rparr>)\<rparr>))"

text \<open>
  \<^verbatim>\<open>s_s3_client_dec_shutdown_wait_count\<close>. The callback and its context are copied into
  locals, the struct is released, and the callback is called through the pointer without a
  test of the pointer: \<open>Invoke_shutdown_callback None _\<close> is a call through \<^verbatim>\<open>NULL\<close>.
\<close>
definition s_s3_client_dec_shutdown_wait_count :: "aws_s3_client \<Rightarrow> world \<Rightarrow> world" where
  "s_s3_client_dec_shutdown_wait_count client0 w0 =
     (let new_count = shutdown_wait_count client0 - 1;
          client = client0\<lparr>shutdown_wait_count := new_count\<rparr>;
          w = w0\<lparr>client_mem := Some client\<rparr>
      in if new_count > 0 then w
         else
           let shutdown_callback_local = shutdown_callback client;
               shutdown_user_data = shutdown_callback_user_data client;
               w = aws_mem_release (allocator client) client w
           in emit (Invoke_shutdown_callback shutdown_callback_local shutdown_user_data) w)"

definition s_s3_client_connection_manager_shutdown_callback :: "aws_s3_client \<Rightarrow> world \<Rightarrow> world" where
  "s_s3_client_connection_manager_shutdown_callback user_data w =
     s_s3_client_dec_shutdown_wait_count user_data w"

subsection \<open>Runs of the life cycle\<close>

text \<open>
  What can happen to a client after construction: a caller that holds a reference (so
  the count is not zero, and the struct is allocated) acquires or releases, and the
  connection manager, once released, confirms its shutdown once. An event that cannot
  happen in a state gives \<open>None\<close>.
\<close>
datatype lifecycle_event = Caller_acquire | Caller_release | Manager_shutdown_complete

definition lifecycle_step :: "lifecycle_event \<Rightarrow> world \<Rightarrow> world option" where
  "lifecycle_step ev w =
     (case client_mem w of
        None \<Rightarrow> None
      | Some client \<Rightarrow>
          (case ev of
             Caller_acquire \<Rightarrow>
               if ref_count client = 0 then None else Some (aws_s3_client_acquire client w)
           | Caller_release \<Rightarrow>
               if ref_count client = 0 then None else Some (aws_s3_client_release client w)
           | Manager_shutdown_complete \<Rightarrow>
               if manager w = Manager_shutting_down
               then Some (s_s3_client_connection_manager_shutdown_callback client
                            (w\<lparr>manager := Manager_gone\<rparr>))
               else None))"

fun lifecycle_run :: "lifecycle_event list \<Rightarrow> world \<Rightarrow> world option" where
  "lifecycle_run [] w = Some w"
| "lifecycle_run (ev # evs) w =
     (case lifecycle_step ev w of None \<Rightarrow> None | Some w' \<Rightarrow> lifecycle_run evs w')"

definition world0 :: world where
  "world0 = \<lparr>client_mem = None, manager = Manager_none, effects = []\<rparr>"

fun is_Mem_release :: "effect \<Rightarrow> bool" where
  "is_Mem_release (Mem_release _ _) = True"
| "is_Mem_release _ = False"

subsection \<open>The request pipeline: data\<close>

definition AWS_OP_SUCCESS :: int where
  "AWS_OP_SUCCESS = 0"

definition AWS_OP_ERR :: int where
  "AWS_OP_ERR = - 1"

definition AWS_ERROR_SUCCESS :: int where
  "AWS_ERROR_SUCCESS = 0"

datatype aws_http_header_block =
  AWS_HTTP_HEADER_BLOCK_MAIN | AWS_HTTP_HEADER_BLOCK_INFORMATIONAL | AWS_HTTP_HEADER_BLOCK_TRAILING

type_synonym aws_http_header = "string \<times> string"

type_synonym bytes = "8 word list"

text \<open>
  Modelled from the spec: \<^verbatim>\<open>struct aws_s3_request\<close> is declared in
  \<^verbatim>\<open>aws/s3/private/s3_request.h\<close>, which is not among the sources. The fields are the ones
  this file uses, which are the attributes the specification lists for the Request (the
  back reference to the client, the outgoing message, the signable, the stream).
  \<open>req_client\<close> is the struct behind the back pointer \<^verbatim>\<open>request->client\<close>; the pipeline
  only reads it.
\<close>
record aws_s3_request =
  req_client :: aws_s3_client
  message :: handle
  signable :: "handle option"
  stream :: "handle option"

datatype aws_signing_config_type = AWS_SIGNING_CONFIG_AWS
datatype aws_signing_algorithm = AWS_SIGNING_ALGORITHM_V4
datatype aws_signed_body_value = G_aws_signed_body_value_unsigned_payload
datatype aws_signed_body_header_type = AWS_SBHT_X_AMZ_CONTENT_SHA256

record aws_signing_config_aws =
  sc_config_type :: aws_signing_config_type
  sc_algorithm :: aws_signing_algorithm
  sc_credentials_provider :: "handle option"
  sc_region :: string
  sc_service :: string
  sc_date :: nat
  sc_signed_body_value :: aws_signed_body_value
  sc_signed_body_header :: aws_signed_body_header_type

text \<open>The four functions of this file that are registered with the HTTP stream.\<close>
datatype stream_hook =
    S_s3_client_incoming_headers
  | S_s3_client_incoming_header_block_done
  | S_s3_client_incoming_body
  | S_s3_client_stream_complete

text \<open>\<^verbatim>\<open>struct aws_http_make_request_options\<close>; its \<^verbatim>\<open>user_data\<close> is the request.\<close>
record aws_http_make_request_options =
  opt_request :: handle
  opt_on_response_headers :: stream_hook
  opt_on_response_header_block_done :: stream_hook
  opt_on_response_body :: stream_hook
  opt_on_complete :: stream_hook

text \<open>
  The calls of the pipeline on its collaborators. A call on the Request object carries
  the request struct as it is at that moment.
\<close>
datatype call =
    Signable_new_http_request "handle option" handle
  | Sign_request_aws "handle option" handle aws_signing_config_aws
  | Apply_signing_result_to_http_request handle "handle option" handle
  | Connection_manager_acquire_connection "handle option"
  | Connection_make_request "handle option" aws_http_make_request_options
  | Stream_activate handle
  | Request_incoming_headers aws_s3_request aws_http_header_block "aws_http_header list" size_t
  | Request_incoming_header_block_done aws_s3_request aws_http_header_block
  | Request_incoming_body aws_s3_request bytes
  | Request_stream_complete aws_s3_request int
  | Request_finish aws_s3_request int

text \<open>
  An asynchronous call that was accepted and whose completion callback is still to come.
\<close>
datatype pending_op = Awaiting_signing | Awaiting_connection | Awaiting_stream handle

record pstate =
  request :: aws_s3_request
  last_error :: int
  pending :: "pending_op option"
  calls :: "call list"

datatype response_event =
    Incoming_headers aws_http_header_block "aws_http_header list"
  | Incoming_header_block_done aws_http_header_block
  | Incoming_body bytes

text \<open>What the signer, the connection manager and the HTTP library answer for one request.\<close>
record collaborators =
  signable_new_result :: "handle option"
  now :: nat
  sign_request_result :: int
  signing_result :: handle
  signing_error_code :: int
  apply_result :: int
  last_error_after_apply :: int
  acquired_connection :: "handle option"
  acquire_error_code :: int
  make_request_result :: "handle option"
  last_error_after_make_request :: int
  activate_result :: int
  last_error_after_activate :: int
  response_events :: "response_event list"
  completion_error_code :: int

text \<open>
  The status each data handler of the Request object returns (\<^verbatim>\<open>s3_request.c\<close> is not part
  of this file): any function of the arguments it is given.
\<close>
record request_handlers =
  incoming_headers_status ::
    "aws_s3_request \<Rightarrow> aws_http_header_block \<Rightarrow> aws_http_header list \<Rightarrow> size_t \<Rightarrow> int"
  incoming_header_block_done_status :: "aws_s3_request \<Rightarrow> aws_http_header_block \<Rightarrow> int"
  incoming_body_status :: "aws_s3_request \<Rightarrow> bytes \<Rightarrow> int"

text \<open>
  Where a run stops without returning: a read through a \<^verbatim>\<open>NULL\<close> pointer, and an
  \<^verbatim>\<open>AWS_PRECONDITION\<close> that does not hold.
\<close>
datatype fault = Null_dereference | Precondition_violated

subsection \<open>Collaborators of the pipeline\<close>

definition log_call :: "call \<Rightarrow> pstate \<Rightarrow> pstate" where
  "log_call c st = st\<lparr>calls := calls st @ [c]\<rparr>"

definition aws_signable_new_http_request ::
  "collaborators \<Rightarrow> handle option \<Rightarrow> handle \<Rightarrow> pstate \<Rightarrow> handle option \<times> pstate" where
  "aws_signable_new_http_request env alloc msg st =
     (signable_new_result env, log_call (Signable_new_http_request alloc msg) st)"

text \<open>A signer that accepts the request (returns 0) owes one call of the completion callback.\<close>
definition aws_sign_request_aws ::
  "collaborators \<Rightarrow> handle option \<Rightarrow> handle \<Rightarrow> aws_signing_config_aws \<Rightarrow> pstate \<Rightarrow> int \<times> pstate" where
  "aws_sign_request_aws env alloc sg config st =
     (sign_request_result env,
      (log_call (Sign_request_aws alloc sg config) st)
        \<lparr>pending := (if sign_request_result env = 0 then Some Awaiting_signing else pending st)\<rparr>)"

definition aws_apply_signing_result_to_http_request ::
  "collaborators \<Rightarrow> handle \<Rightarrow> handle option \<Rightarrow> handle \<Rightarrow> pstate \<Rightarrow> int \<times> pstate" where
  "aws_apply_signing_result_to_http_request env msg alloc res st =
     (apply_result env,
      (log_call (Apply_signing_result_to_http_request msg alloc res) st)
        \<lparr>last_error := (if apply_result env = 0 then last_error st else last_error_after_apply env)\<rparr>)"

text \<open>The connection manager owes one call of the acquisition callback.\<close>
definition aws_http_connection_manager_acquire_connection :: "handle option \<Rightarrow> pstate \<Rightarrow> pstate" where
  "aws_http_connection_manager_acquire_connection mgr st =
     (log_call (Connection_manager_acquire_connection mgr) st)\<lparr>pending := Some Awaiting_connection\<rparr>"

definition aws_http_connection_make_request ::
  "collaborators \<Rightarrow> handle option \<Rightarrow> aws_http_make_request_options \<Rightarrow> pstate \<Rightarrow> handle option \<times> pstate" where
  "aws_http_connection_make_request env connection options st =
     (make_request_result env,
      (log_call (Connection_make_request connection options) st)
        \<lparr>last_error := (if make_request_result env = None then last_error_after_make_request env
                        else last_error st)\<rparr>)"

text \<open>An activated stream owes its response events and then one call of \<open>on_complete\<close>.\<close>
definition aws_http_stream_activate :: "collaborators \<Rightarrow> handle \<Rightarrow> pstate \<Rightarrow> int \<times> pstate" where
  "aws_http_stream_activate env strm st =
     (activate_result env,
      (log_call (Stream_activate strm) st)
        \<lparr>last_error := (if activate_result env = AWS_OP_SUCCESS then last_error st
                        else last_error_after_activate env),
         pending := (if activate_result env = AWS_OP_SUCCESS then Some (Awaiting_stream strm)
                     else pending st)\<rparr>)"

definition aws_last_error :: "pstate \<Rightarrow> int" where
  "aws_last_error st = last_error st"

text \<open>
  Modelled from the spec: the five entry points of the Request object
  (\<^verbatim>\<open>aws_s3_request_incoming_headers\<close>, \<^verbatim>\<open>aws_s3_request_incoming_header_block_done\<close>,
  \<^verbatim>\<open>aws_s3_request_incoming_body\<close>, \<^verbatim>\<open>aws_s3_request_stream_complete\<close>,
  \<^verbatim>\<open>aws_s3_request_finish\<close>) are defined in \<^verbatim>\<open>s3_request.c\<close>, which is not among the sources.
  The specification gives the Request object as an opaque collaborator with exactly these
  five handlers, three of them returning a status. The model records each call with its
  arguments and takes the status of a data handler from \<open>request_handlers\<close>.
\<close>
definition aws_s3_request_incoming_headers ::
  "request_handlers \<Rightarrow> aws_http_header_block \<Rightarrow> aws_http_header list \<Rightarrow> size_t \<Rightarrow> pstate \<Rightarrow> int \<times> pstate" where
  "aws_s3_request_incoming_headers H header_block headers num_headers st =
     (incoming_headers_status H (request st) header_block headers num_headers,
      log_call (Request_incoming_headers (request st) header_block headers num_headers) st)"

definition aws_s3_request_incoming_header_block_done ::
  "request_handlers \<Rightarrow> aws_http_header_block \<Rightarrow> pstate \<Rightarrow> int \<times> pstate" where
  "aws_s3_request_incoming_header_block_done H header_block st =
     (incoming_header_block_done_status H (request st) header_block,
      log_call (Request_incoming_header_block_done (request st) header_block) st)"

definition aws_s3_request_incoming_body :: "request_handlers \<Rightarrow> bytes \<Rightarrow> pstate \<Rightarrow> int \<times> pstate" where
  "aws_s3_request_incoming_body H data st =
     (incoming_body_status H (request st) data,
      log_call (Request_incoming_body (request st) data) st)"

definition aws_s3_request_stream_complete :: "int \<Rightarrow> pstate \<Rightarrow> pstate" where
  "aws_s3_request_stream_complete error_code st =
     log_call (Request_stream_complete (request st) error_code) st"

definition aws_s3_request_finish :: "int \<Rightarrow> pstate \<Rightarrow> pstate" where
  "aws_s3_request_finish error_code st = log_call (Request_finish (request st) error_code) st"

subsection \<open>The pipeline functions\<close>

text \<open>
  \<^verbatim>\<open>s3_client_make_request\<close>. Both failures return \<^verbatim>\<open>AWS_OP_ERR\<close> at once.
  \<^verbatim>\<open>client->region->len\<close> is read through the region pointer.
\<close>
definition s3_client_make_request ::
  "collaborators \<Rightarrow> aws_s3_client \<Rightarrow> pstate \<Rightarrow> fault + (int \<times> pstate)" where
  "s3_client_make_request env client st0 =
     (let (new_signable, st) = aws_signable_new_http_request env (allocator client)
                        (message (request st0)) st0;
          st = st\<lparr>request := (request st)\<lparr>signable := new_signable\<rparr>\<rparr>
      in case signable (request st) of
           None \<Rightarrow> Inr (AWS_OP_ERR, st)
         | Some the_signable \<Rightarrow>
             (case region client of
                None \<Rightarrow> Inl Null_dereference
              | Some region_bytes \<Rightarrow>
                  let signing_config =
                        \<lparr>sc_config_type = AWS_SIGNING_CONFIG_AWS,
                         sc_algorithm = AWS_SIGNING_ALGORITHM_V4,
                         sc_credentials_provider = credentials_provider client,
                         sc_region = region_bytes,
                         sc_service = ''s3'',
                         sc_date = now env,
                         sc_signed_body_value = G_aws_signed_body_value_unsigned_payload,
                         sc_signed_body_header = AWS_SBHT_X_AMZ_CONTENT_SHA256\<rparr>;
                      (rc, st) = aws_sign_request_aws env (allocator client) the_signable
                                   signing_config st
                  in if rc \<noteq> 0 then Inr (AWS_OP_ERR, st) else Inr (AWS_OP_SUCCESS, st)))"

definition s_s3_client_signing_complete ::
  "collaborators \<Rightarrow> handle \<Rightarrow> int \<Rightarrow> pstate \<Rightarrow> pstate" where
  "s_s3_client_signing_complete env result error_code st0 =
     (let client = req_client (request st0)
      in if error_code \<noteq> AWS_OP_SUCCESS then aws_s3_request_finish error_code st0
         else
           let (rc, st) = aws_apply_signing_result_to_http_request env (message (request st0))
                            (allocator client) result st0
           in if rc \<noteq> 0 then aws_s3_request_finish (aws_last_error st) st
              else aws_http_connection_manager_acquire_connection (connection_manager client) st)"

text \<open>
  \<^verbatim>\<open>s_s3_client_on_acquire_connection\<close>. \<^verbatim>\<open>AWS_PRECONDITION(connection)\<close> is the first
  statement, before the test of the error code: with a \<^verbatim>\<open>NULL\<close> connection the function
  stops there. The connection is a parameter only: it is passed to
  \<^verbatim>\<open>aws_http_connection_make_request\<close> and stored nowhere.
\<close>
definition s_s3_client_on_acquire_connection ::
  "collaborators \<Rightarrow> handle option \<Rightarrow> int \<Rightarrow> pstate \<Rightarrow> fault + pstate" where
  "s_s3_client_on_acquire_connection env connection error_code st0 =
     (if connection = None then Inl Precondition_violated
      else if error_code \<noteq> AWS_ERROR_SUCCESS then Inr (aws_s3_request_finish error_code st0)
      else
        let options =
              \<lparr>opt_request = message (request st0),
               opt_on_response_headers = S_s3_client_incoming_headers,
               opt_on_response_header_block_done = S_s3_client_incoming_header_block_done,
               opt_on_response_body = S_s3_client_incoming_body,
               opt_on_complete = S_s3_client_stream_complete\<rparr>;
            (strm, st) = aws_http_connection_make_request env connection options st0;
            st = st\<lparr>request := (request st)\<lparr>stream := strm\<rparr>\<rparr>
        in case stream (request st) of
             None \<Rightarrow> Inr (aws_s3_request_finish (aws_last_error st) st)
           | Some the_stream \<Rightarrow>
               let (rc, st) = aws_http_stream_activate env the_stream st
               in if rc \<noteq> AWS_OP_SUCCESS
                  then Inr (aws_s3_request_finish (aws_last_error st) st)
                  else Inr st)"

text \<open>The three data hooks: the stream argument is not used, \<^verbatim>\<open>user_data\<close> is the request.\<close>
definition s_s3_client_incoming_headers ::
  "request_handlers \<Rightarrow> handle option \<Rightarrow> aws_http_header_block \<Rightarrow> aws_http_header list \<Rightarrow> size_t
     \<Rightarrow> pstate \<Rightarrow> int \<times> pstate" where
  "s_s3_client_incoming_headers H strm header_block headers num_headers st =
     aws_s3_request_incoming_headers H header_block headers num_headers st"

definition s_s3_client_incoming_header_block_done ::
  "request_handlers \<Rightarrow> handle option \<Rightarrow> aws_http_header_block \<Rightarrow> pstate \<Rightarrow> int \<times> pstate" where
  "s_s3_client_incoming_header_block_done H strm header_block st =
     aws_s3_request_incoming_header_block_done H header_block st"

definition s_s3_client_incoming_body ::
  "request_handlers \<Rightarrow> handle option \<Rightarrow> bytes \<Rightarrow> pstate \<Rightarrow> int \<times> pstate" where
  "s_s3_client_incoming_body H strm data st = aws_s3_request_incoming_body H data st"

definition s_s3_client_stream_complete :: "handle option \<Rightarrow> int \<Rightarrow> pstate \<Rightarrow> pstate" where
  "s_s3_client_stream_complete strm error_code st =
     aws_s3_request_finish error_code (aws_s3_request_stream_complete error_code st)"

subsection \<open>Runs of the pipeline\<close>

text \<open>
  The event loop of the collaborators. The HTTP library hands each response event to the
  hook registered for it and stops at the first hook that does not return
  \<^verbatim>\<open>AWS_OP_SUCCESS\<close>.
\<close>
fun dispatch_event :: "request_handlers \<Rightarrow> handle option \<Rightarrow> response_event \<Rightarrow> pstate \<Rightarrow> int \<times> pstate" where
  "dispatch_event H strm (Incoming_headers header_block headers) st =
     s_s3_client_incoming_headers H strm header_block headers (of_nat (length headers)) st"
| "dispatch_event H strm (Incoming_header_block_done header_block) st =
     s_s3_client_incoming_header_block_done H strm header_block st"
| "dispatch_event H strm (Incoming_body data) st = s_s3_client_incoming_body H strm data st"

fun deliver_response :: "request_handlers \<Rightarrow> handle option \<Rightarrow> response_event list \<Rightarrow> pstate \<Rightarrow> pstate" where
  "deliver_response H strm [] st = st"
| "deliver_response H strm (ev # evs) st =
     (case dispatch_event H strm ev st of
        (status, st') \<Rightarrow> if status = AWS_OP_SUCCESS then deliver_response H strm evs st' else st')"

text \<open>
  One turn of the event loop: the collaborator that owes a completion calls the callback
  that was registered with it, with the answer of \<open>collaborators\<close>.
\<close>
definition deliver :: "collaborators \<Rightarrow> request_handlers \<Rightarrow> pstate \<Rightarrow> fault + pstate" where
  "deliver env H st =
     (case pending st of
        None \<Rightarrow> Inr st
      | Some Awaiting_signing \<Rightarrow>
          Inr (s_s3_client_signing_complete env (signing_result env) (signing_error_code env)
                 (st\<lparr>pending := None\<rparr>))
      | Some Awaiting_connection \<Rightarrow>
          s_s3_client_on_acquire_connection env (acquired_connection env) (acquire_error_code env)
            (st\<lparr>pending := None\<rparr>)
      | Some (Awaiting_stream strm) \<Rightarrow>
          Inr (s_s3_client_stream_complete (Some strm) (completion_error_code env)
                 (deliver_response H (Some strm) (response_events env) (st\<lparr>pending := None\<rparr>))))"

text \<open>The next turn of the event loop, unless the run has stopped.\<close>
definition then_deliver ::
  "collaborators \<Rightarrow> request_handlers \<Rightarrow> fault + pstate \<Rightarrow> fault + pstate" where
  "then_deliver env H r = (case r of Inl f \<Rightarrow> Inl f | Inr st \<Rightarrow> deliver env H st)"

definition init_pstate :: "aws_s3_request \<Rightarrow> pstate" where
  "init_pstate req = \<lparr>request = req, last_error = 0, pending = None, calls = []\<rparr>"

text \<open>
  A whole run: the caller's \<^verbatim>\<open>s3_client_make_request\<close>, then the three suspension points
  (signing, connection acquisition, the exchange), each of which does nothing once no
  completion is owed. The result is the value \<^verbatim>\<open>s3_client_make_request\<close> returned and the
  final state, or the fault the run stopped with.
\<close>
definition run_pipeline ::
  "collaborators \<Rightarrow> request_handlers \<Rightarrow> aws_s3_client \<Rightarrow> aws_s3_request \<Rightarrow> fault + (int \<times> pstate)" where
  "run_pipeline env H client req =
     (case s3_client_make_request env client (init_pstate req) of
        Inl f \<Rightarrow> Inl f
      | Inr (rc, st) \<Rightarrow>
          (case then_deliver env H (then_deliver env H (deliver env H st)) of
             Inl f \<Rightarrow> Inl f
           | Inr st' \<Rightarrow> Inr (rc, st')))"

fun is_Request_finish :: "call \<Rightarrow> bool" where
  "is_Request_finish (Request_finish _ _) = True"
| "is_Request_finish _ = False"

fun is_Request_stream_complete :: "call \<Rightarrow> bool" where
  "is_Request_stream_complete (Request_stream_complete _ _) = True"
| "is_Request_stream_complete _ = False"

definition finish_count :: "call list \<Rightarrow> nat" where
  "finish_count cs = length (filter is_Request_finish cs)"

text \<open>The status and the calls of a run that returned.\<close>
fun run_status :: "fault + (int \<times> pstate) \<Rightarrow> int option" where
  "run_status (Inl _) = None"
| "run_status (Inr (rc, _)) = Some rc"

fun run_calls :: "fault + (int \<times> pstate) \<Rightarrow> call list" where
  "run_calls (Inl _) = []"
| "run_calls (Inr (_, st)) = calls st"

subsection \<open>What the collaborators did in a run\<close>

text \<open>The stream was created and activated: every stage before the exchange succeeded.\<close>
definition exchange_runs :: "collaborators \<Rightarrow> bool" where
  "exchange_runs env =
     (signable_new_result env \<noteq> None \<and> sign_request_result env = 0 \<and>
      signing_error_code env = AWS_OP_SUCCESS \<and> apply_result env = 0 \<and>
      acquire_error_code env = AWS_ERROR_SUCCESS \<and> make_request_result env \<noteq> None \<and>
      activate_result env = AWS_OP_SUCCESS)"

text \<open>
  The signing stage fails: the completion callback reports an error code, or applying the
  signing result to the message fails.
\<close>
definition signing_fails :: "collaborators \<Rightarrow> bool" where
  "signing_fails env = (signing_error_code env \<noteq> AWS_OP_SUCCESS \<or> apply_result env \<noteq> 0)"

text \<open>
  The status a run that was accepted ends with: the code of the first stage that fails
  after the start, and the completion code of the exchange when none does.
\<close>
definition expected_terminal_status :: "collaborators \<Rightarrow> int" where
  "expected_terminal_status env =
     (if signing_error_code env \<noteq> AWS_OP_SUCCESS then signing_error_code env
      else if apply_result env \<noteq> 0 then last_error_after_apply env
      else if acquire_error_code env \<noteq> AWS_ERROR_SUCCESS then acquire_error_code env
      else if make_request_result env = None then last_error_after_make_request env
      else if activate_result env \<noteq> AWS_OP_SUCCESS then last_error_after_activate env
      else completion_error_code env)"

subsection \<open>The phases of the life cycle\<close>

text \<open>
  While the struct is allocated nothing has been released: either the manager is live
  (one shutdown still awaited), or it is shutting down after the count fell to zero, or it
  was never built and no reference is left. Once the struct is gone the manager has
  confirmed, and the one release happened with both counters at zero.
\<close>
definition lifecycle_inv :: "world \<Rightarrow> bool" where
  "lifecycle_inv w =
     (case client_mem w of
        Some c \<Rightarrow>
          filter is_Mem_release (effects w) = [] \<and>
          (case manager w of
             Manager_none \<Rightarrow> ref_count c = 0
           | Manager_live \<Rightarrow> shutdown_wait_count c = 1 \<and> connection_manager c \<noteq> None
           | Manager_shutting_down \<Rightarrow> ref_count c = 0 \<and> shutdown_wait_count c = 1
           | Manager_gone \<Rightarrow> False)
      | None \<Rightarrow>
          (manager w = Manager_none \<and> filter is_Mem_release (effects w) = []) \<or>
          (manager w = Manager_gone \<and>
           (\<exists>a c. filter is_Mem_release (effects w) = [Mem_release a c] \<and>
                  ref_count c = 0 \<and> shutdown_wait_count c = 0)))"

subsection \<open>Concrete inputs\<close>

definition ex_config :: aws_s3_client_config where
  "ex_config =
     \<lparr>cfg_client_bootstrap = Some 1, cfg_credentials_provider = Some 2,
      cfg_region = ''us-east-1'', cfg_endpoint = ''s3.amazonaws.com'',
      cfg_shutdown_callback = Some 3, cfg_shutdown_callback_user_data = Some 4\<rparr>"

definition ex_allocs :: alloc_outcomes where
  "ex_allocs = \<lparr>calloc_ok = True, region_ok = True, endpoint_ok = True, manager_result = Some 5\<rparr>"

definition ex_client :: aws_s3_client where
  "ex_client =
     \<lparr>allocator = Some 9, ref_count = 1, shutdown_wait_count = 1, client_bootstrap = Some 1,
      credentials_provider = Some 2, shutdown_callback = Some 3,
      shutdown_callback_user_data = Some 4, region = Some ''us-east-1'',
      endpoint = Some ''s3.amazonaws.com'', connection_manager = Some 5\<rparr>"

definition ex_request :: aws_s3_request where
  "ex_request = \<lparr>req_client = ex_client, message = 20, signable = None, stream = None\<rparr>"

definition ex_env :: collaborators where
  "ex_env =
     \<lparr>signable_new_result = Some 21, now = 0, sign_request_result = 0, signing_result = 22,
      signing_error_code = 0, apply_result = 0, last_error_after_apply = 0,
      acquired_connection = Some 23, acquire_error_code = 0, make_request_result = Some 24,
      last_error_after_make_request = 0, activate_result = 0, last_error_after_activate = 0,
      response_events =
        [Incoming_headers AWS_HTTP_HEADER_BLOCK_MAIN [(''content-length'', ''2'')],
         Incoming_header_block_done AWS_HTTP_HEADER_BLOCK_MAIN,
         Incoming_body [104, 105]],
      completion_error_code = 0\<rparr>"

definition ex_handlers :: request_handlers where
  "ex_handlers =
     \<lparr>incoming_headers_status = (\<lambda>_ _ _ _. 0),
      incoming_header_block_done_status = (\<lambda>_ _. 0),
      incoming_body_status = (\<lambda>_ _. 0)\<rparr>"

section \<open>Properties of the life cycle\<close>

lemmas collab_defs = emit_def aws_raise_error_def aws_credentials_provider_acquire_def
  aws_credentials_provider_release_def aws_string_new_from_array_def aws_string_destroy_def
  aws_http_connection_manager_new_def aws_http_connection_manager_release_def aws_mem_release_def

lemmas lifecycle_defs = aws_s3_client_new_def new_error_clean_up_def aws_s3_client_release_def
  aws_s3_client_acquire_def s_s3_client_dec_shutdown_wait_count_def
  s_s3_client_connection_manager_shutdown_callback_def lifecycle_step_def zeroed_client_def
  world0_def SIZE_MAX_def

lemmas ex_lifecycle_defs = ex_config_def ex_allocs_def ex_client_def

subsection \<open>Construction\<close>

text \<open>
  C7. With a bootstrap and a credentials provider in the configuration, and every
  allocation and the connection manager's construction succeeding,
  \<^verbatim>\<open>aws_s3_client_new\<close> returns a client (not \<^verbatim>\<open>NULL\<close>) whose reference count is 1 and whose
  shutdown-wait count is 1, the one for the connection manager.
\<close>
theorem C7_client_new_counts:
  assumes "cfg_client_bootstrap cfg \<noteq> None" and "cfg_credentials_provider cfg \<noteq> None"
    and "calloc_ok env" and "region_ok env" and "endpoint_ok env"
    and "manager_result env \<noteq> None"
  shows "fst (aws_s3_client_new alloc cfg env w) \<and>
         (\<exists>client. client_mem (snd (aws_s3_client_new alloc cfg env w)) = Some client \<and>
            ref_count client = 1 \<and> shutdown_wait_count client = 1 \<and>
            connection_manager client = manager_result env)"
  using assms
  by (auto simp: aws_s3_client_new_def Let_def collab_defs zeroed_client_def)

theorem C7_client_new_counts_witness:
  "cfg_client_bootstrap ex_config \<noteq> None \<and> cfg_credentials_provider ex_config \<noteq> None \<and>
   calloc_ok ex_allocs \<and> region_ok ex_allocs \<and> endpoint_ok ex_allocs \<and>
   manager_result ex_allocs \<noteq> None \<and>
   fst (aws_s3_client_new 9 ex_config ex_allocs world0) \<and>
   map_option ref_count (client_mem (snd (aws_s3_client_new 9 ex_config ex_allocs world0))) = Some 1 \<and>
   map_option shutdown_wait_count
     (client_mem (snd (aws_s3_client_new 9 ex_config ex_allocs world0))) = Some 1"
proof -
  have h: "cfg_client_bootstrap ex_config \<noteq> None" "cfg_credentials_provider ex_config \<noteq> None"
    "calloc_ok ex_allocs" "region_ok ex_allocs" "endpoint_ok ex_allocs"
    "manager_result ex_allocs \<noteq> None"
    by (simp_all add: ex_config_def ex_allocs_def)
  from C7_client_new_counts [OF h, of 9 world0] h show ?thesis
    by auto
qed

text \<open>
  C8. When the bootstrap or the credentials provider of the configuration is \<^verbatim>\<open>NULL\<close>,
  \<^verbatim>\<open>aws_s3_client_new\<close> returns \<^verbatim>\<open>NULL\<close> and its only effect is to raise
  \<^verbatim>\<open>AWS_ERROR_INVALID_ARGUMENT\<close>: nothing is allocated, no subsystem is built and no
  reference on the provider is taken.
\<close>
theorem C8_client_new_rejects_missing_input:
  assumes "cfg_client_bootstrap cfg = None \<or> cfg_credentials_provider cfg = None"
  shows "aws_s3_client_new alloc cfg env w =
           (False, w\<lparr>effects := effects w @ [Raise_error AWS_ERROR_INVALID_ARGUMENT]\<rparr>)"
  using assms
  by (auto simp: aws_s3_client_new_def aws_raise_error_def emit_def)

theorem C8_client_new_rejects_missing_input_witness:
  "cfg_credentials_provider (ex_config\<lparr>cfg_credentials_provider := None\<rparr>) = None \<and>
   aws_s3_client_new 9 (ex_config\<lparr>cfg_credentials_provider := None\<rparr>) ex_allocs world0 =
     (False, \<lparr>client_mem = None, manager = Manager_none,
              effects = [Raise_error AWS_ERROR_INVALID_ARGUMENT]\<rparr>)"
proof -
  have h: "cfg_client_bootstrap (ex_config\<lparr>cfg_credentials_provider := None\<rparr>) = None \<or>
           cfg_credentials_provider (ex_config\<lparr>cfg_credentials_provider := None\<rparr>) = None"
    by simp
  from C8_client_new_rejects_missing_input [OF h, of 9 ex_allocs world0] show ?thesis
    by (simp add: world0_def)
qed

text \<open>
  C3. The claim is that a construction failing after the client was allocated returns
  \<^verbatim>\<open>NULL\<close> and gives back everything obtained so far, the client's own allocation included.
  The code returns \<^verbatim>\<open>NULL\<close> and, through \<^verbatim>\<open>aws_s3_client_release\<close> at \<^verbatim>\<open>error_clean_up\<close>, gives
  back the provider reference and the strings, but it never calls \<^verbatim>\<open>aws_mem_release\<close> on the
  struct: the struct stays allocated with nothing left to free it.
\<close>
theorem C3_failed_construction_keeps_client_memory:
  assumes "cfg_client_bootstrap cfg \<noteq> None" and "cfg_credentials_provider cfg \<noteq> None"
    and "calloc_ok env"
    and "\<not> region_ok env \<or> \<not> endpoint_ok env \<or> manager_result env = None"
  shows "\<not> fst (aws_s3_client_new alloc cfg env w) \<and>
         client_mem (snd (aws_s3_client_new alloc cfg env w)) \<noteq> None \<and>
         Mem_calloc alloc True \<in> set (effects (snd (aws_s3_client_new alloc cfg env w))) \<and>
         filter is_Mem_release (effects (snd (aws_s3_client_new alloc cfg env w))) =
           filter is_Mem_release (effects w)"
  using assms
  by (auto simp: aws_s3_client_new_def Let_def collab_defs zeroed_client_def new_error_clean_up_def
      aws_s3_client_release_def)

theorem C3_failed_construction_keeps_client_memory_witness:
  "aws_s3_client_new 9 ex_config (ex_allocs\<lparr>region_ok := False\<rparr>) world0 =
     (False,
      \<lparr>client_mem = Some (ex_client\<lparr>ref_count := 0, shutdown_wait_count := 0,
                            credentials_provider := None, region := None, endpoint := None,
                            connection_manager := None\<rparr>),
       manager = Manager_none,
       effects = [Mem_calloc 9 True, Credentials_provider_acquire (Some 2),
                  String_new_from_array 9 ''us-east-1'' False,
                  Credentials_provider_release 2]\<rparr>)
   \<and> filter is_Mem_release
       (effects (snd (aws_s3_client_new 9 ex_config (ex_allocs\<lparr>region_ok := False\<rparr>) world0))) = []"
proof -
  have h: "cfg_client_bootstrap ex_config \<noteq> None" "cfg_credentials_provider ex_config \<noteq> None"
    "calloc_ok (ex_allocs\<lparr>region_ok := False\<rparr>)"
    "\<not> region_ok (ex_allocs\<lparr>region_ok := False\<rparr>) \<or> \<not> endpoint_ok (ex_allocs\<lparr>region_ok := False\<rparr>) \<or>
     manager_result (ex_allocs\<lparr>region_ok := False\<rparr>) = None"
    by (simp_all add: ex_config_def ex_allocs_def)
  have ev: "aws_s3_client_new 9 ex_config (ex_allocs\<lparr>region_ok := False\<rparr>) world0 =
     (False,
      \<lparr>client_mem = Some (ex_client\<lparr>ref_count := 0, shutdown_wait_count := 0,
                            credentials_provider := None, region := None, endpoint := None,
                            connection_manager := None\<rparr>),
       manager = Manager_none,
       effects = [Mem_calloc 9 True, Credentials_provider_acquire (Some 2),
                  String_new_from_array 9 ''us-east-1'' False,
                  Credentials_provider_release 2]\<rparr>)"
    by (simp add: lifecycle_defs ex_lifecycle_defs collab_defs Let_def)
  from C3_failed_construction_keeps_client_memory [OF h, of 9 world0] ev show ?thesis
    by (simp add: world0_def)
qed

subsection \<open>The last shutdown confirmation\<close>

text \<open>
  C10. When the decrement brings the shutdown-wait count to zero (it was 1), the function
  releases the struct and then calls the shutdown callback: the two effects are, in this
  order, the release of the client's memory and the call through the callback pointer
  with the context, both as they stood in the struct before the release. The call is
  made whatever the pointer is (also \<open>None\<close>), its only argument is the context, and the
  client's memory is gone when it is made.
\<close>
theorem C10_release_then_callback:
  assumes "shutdown_wait_count client = 1"
  shows "s_s3_client_dec_shutdown_wait_count client w =
           w\<lparr>client_mem := None,
             effects := effects w @
               [Mem_release (allocator client) (client\<lparr>shutdown_wait_count := 0\<rparr>),
                Invoke_shutdown_callback (shutdown_callback client)
                  (shutdown_callback_user_data client)]\<rparr>"
  using assms
  by (simp add: s_s3_client_dec_shutdown_wait_count_def Let_def aws_mem_release_def emit_def)

theorem C10_release_then_callback_witness:
  "shutdown_wait_count (ex_client\<lparr>ref_count := 0, shutdown_callback := None\<rparr>) = 1 \<and>
   s_s3_client_dec_shutdown_wait_count (ex_client\<lparr>ref_count := 0, shutdown_callback := None\<rparr>)
       \<lparr>client_mem = Some (ex_client\<lparr>ref_count := 0, shutdown_callback := None\<rparr>),
        manager = Manager_gone, effects = []\<rparr> =
     \<lparr>client_mem = None, manager = Manager_gone,
      effects =
        [Mem_release (Some 9)
           (ex_client\<lparr>ref_count := 0, shutdown_callback := None, shutdown_wait_count := 0\<rparr>),
         Invoke_shutdown_callback None (Some 4)]\<rparr>"
proof -
  have h: "shutdown_wait_count (ex_client\<lparr>ref_count := 0, shutdown_callback := None\<rparr>) = 1"
    by (simp add: ex_client_def)
  from C10_release_then_callback [OF h] h show ?thesis
    by (simp add: ex_client_def)
qed

subsection \<open>Release of the client's memory\<close>

lemma release_nonzero:
  "ref_count c - 1 \<noteq> 0 \<Longrightarrow>
   aws_s3_client_release c w = w\<lparr>client_mem := Some (c\<lparr>ref_count := ref_count c - 1\<rparr>)\<rparr>"
  by (simp add: aws_s3_client_release_def Let_def word_gt_0)

lemma release_zero:
  assumes "ref_count c - 1 = 0"
  shows "\<exists>c'. client_mem (aws_s3_client_release c w) = Some c' \<and> ref_count c' = 0 \<and>
           shutdown_wait_count c' = shutdown_wait_count c"
    and "filter is_Mem_release (effects (aws_s3_client_release c w)) =
           filter is_Mem_release (effects w)"
    and "manager (aws_s3_client_release c w) =
           (if connection_manager c = None then manager w else Manager_shutting_down)"
  using assms
  by (simp_all add: aws_s3_client_release_def Let_def collab_defs split: option.splits)

lemma inv_new: "lifecycle_inv (snd (aws_s3_client_new alloc cfg env world0))"
  by (simp add: aws_s3_client_new_def Let_def new_error_clean_up_def lifecycle_inv_def world0_def
      collab_defs zeroed_client_def aws_s3_client_release_def split: option.splits)

lemma inv_step:
  assumes "lifecycle_inv w" and "lifecycle_step ev w = Some w'"
  shows "lifecycle_inv w'"
proof -
  from assms(2) obtain c where c: "client_mem w = Some c"
    by (auto simp: lifecycle_step_def split: option.splits)
  show ?thesis
  proof (cases ev)
    case Caller_acquire
    with assms c show ?thesis
      by (auto simp: lifecycle_step_def lifecycle_inv_def aws_s3_client_acquire_def
          split: if_splits manager_status.splits)
  next
    case Caller_release
    with assms(2) c have nz: "ref_count c \<noteq> 0" and w': "w' = aws_s3_client_release c w"
      by (auto simp: lifecycle_step_def split: if_splits)
    show ?thesis
    proof (cases "ref_count c - 1 = 0")
      case True
      from release_zero [OF True, of w] assms(1) c nz show ?thesis
        unfolding w' lifecycle_inv_def
        by (auto split: manager_status.splits)
    next
      case False
      with assms(1) c nz show ?thesis
        unfolding w' lifecycle_inv_def
        by (auto simp: release_nonzero split: manager_status.splits)
    qed
  next
    case Manager_shutdown_complete
    with assms c show ?thesis
      by (auto simp: lifecycle_step_def lifecycle_inv_def
          s_s3_client_connection_manager_shutdown_callback_def
          s_s3_client_dec_shutdown_wait_count_def Let_def collab_defs split: if_splits)
  qed
qed

lemma inv_run: "lifecycle_inv w \<Longrightarrow> lifecycle_run evs w = Some w' \<Longrightarrow> lifecycle_inv w'"
  by (induction evs arbitrary: w) (auto split: option.splits dest: inv_step)

lemma mem_release_in_filter:
  "Mem_release a c \<in> set effs \<Longrightarrow> filter is_Mem_release effs = fs \<Longrightarrow> Mem_release a c \<in> set fs"
  by auto

text \<open>
  C2. Take any client, built by \<^verbatim>\<open>aws_s3_client_new\<close> from any configuration and any
  allocation outcome, and any sequence of acquires and releases by callers that hold a
  reference and of shutdown confirmations by the connection manager. Every release of the
  client's memory in the log happened with the reference count at 0 and the shutdown-wait
  count at 0; there is at most one; and while the struct is allocated with only one of the
  two counters at zero, the memory has not been released.
\<close>
theorem C2_memory_release_gated:
  assumes "lifecycle_run evs (snd (aws_s3_client_new alloc cfg env world0)) = Some w"
  shows "(\<forall>a c. Mem_release a c \<in> set (effects w) \<longrightarrow> ref_count c = 0 \<and> shutdown_wait_count c = 0)
       \<and> length (filter is_Mem_release (effects w)) \<le> 1
       \<and> (\<forall>c. client_mem w = Some c \<and>
                (ref_count c = 0 \<and> shutdown_wait_count c \<noteq> 0 \<or>
                 ref_count c \<noteq> 0 \<and> shutdown_wait_count c = 0)
              \<longrightarrow> filter is_Mem_release (effects w) = [])"
proof -
  have inv: "lifecycle_inv w"
    using inv_run [OF inv_new assms] .
  have gated: "ref_count c = 0 \<and> shutdown_wait_count c = 0"
    if "Mem_release a c \<in> set (effects w)" for a c
    using inv that unfolding lifecycle_inv_def
    by (auto split: option.splits dest: mem_release_in_filter)
  have once: "length (filter is_Mem_release (effects w)) \<le> 1"
    using inv by (auto simp: lifecycle_inv_def split: option.splits)
  have live: "filter is_Mem_release (effects w) = []" if "client_mem w = Some c" for c
    using inv that by (simp add: lifecycle_inv_def)
  from gated once live show ?thesis by blast
qed

theorem C2_memory_release_gated_witness:
  "(case lifecycle_run [Caller_acquire, Caller_release, Caller_release, Manager_shutdown_complete]
          (snd (aws_s3_client_new 9 ex_config ex_allocs world0)) of
      None \<Rightarrow> False
    | Some w \<Rightarrow>
        client_mem w = None \<and>
        filter is_Mem_release (effects w) =
          [Mem_release (Some 9)
             (ex_client\<lparr>ref_count := 0, shutdown_wait_count := 0, credentials_provider := None,
                region := None, endpoint := None, connection_manager := None\<rparr>)])
   \<and> (case lifecycle_run [Caller_release] (snd (aws_s3_client_new 9 ex_config ex_allocs world0)) of
      None \<Rightarrow> False
    | Some w \<Rightarrow>
        map_option ref_count (client_mem w) = Some 0 \<and>
        map_option shutdown_wait_count (client_mem w) = Some 1 \<and>
        filter is_Mem_release (effects w) = [])"
proof -
  obtain w1 where r1:
      "lifecycle_run [Caller_acquire, Caller_release, Caller_release, Manager_shutdown_complete]
         (snd (aws_s3_client_new 9 ex_config ex_allocs world0)) = Some w1"
    and m1: "client_mem w1 = None"
    and e1: "filter is_Mem_release (effects w1) =
          [Mem_release (Some 9)
             (ex_client\<lparr>ref_count := 0, shutdown_wait_count := 0, credentials_provider := None,
                region := None, endpoint := None, connection_manager := None\<rparr>)]"
    by (simp add: lifecycle_defs ex_lifecycle_defs collab_defs Let_def)
  obtain w2 where r2:
      "lifecycle_run [Caller_release] (snd (aws_s3_client_new 9 ex_config ex_allocs world0)) = Some w2"
    and m2: "map_option ref_count (client_mem w2) = Some 0"
            "map_option shutdown_wait_count (client_mem w2) = Some 1"
            "filter is_Mem_release (effects w2) = []"
    by (simp add: lifecycle_defs ex_lifecycle_defs collab_defs Let_def)
  from C2_memory_release_gated [OF r1] C2_memory_release_gated [OF r2] r1 m1 e1 r2 m2
  show ?thesis
    by simp
qed

section \<open>Properties of the request pipeline\<close>

lemmas pipeline_collab_defs = log_call_def aws_signable_new_http_request_def aws_sign_request_aws_def
  aws_apply_signing_result_to_http_request_def aws_http_connection_manager_acquire_connection_def
  aws_http_connection_make_request_def aws_http_stream_activate_def aws_last_error_def
  aws_s3_request_incoming_headers_def aws_s3_request_incoming_header_block_done_def
  aws_s3_request_incoming_body_def aws_s3_request_stream_complete_def aws_s3_request_finish_def

lemmas hook_defs = s_s3_client_incoming_headers_def s_s3_client_incoming_header_block_done_def
  s_s3_client_incoming_body_def

lemmas stage_defs = s3_client_make_request_def s_s3_client_signing_complete_def
  s_s3_client_on_acquire_connection_def s_s3_client_stream_complete_def

lemmas run_defs = run_pipeline_def deliver_def then_deliver_def init_pstate_def stage_defs
  pipeline_collab_defs
  AWS_OP_SUCCESS_def AWS_OP_ERR_def AWS_ERROR_SUCCESS_def

lemmas eval_defs = run_defs hook_defs Let_def

lemmas ex_pipeline_defs = ex_env_def ex_handlers_def ex_client_def ex_request_def

subsection \<open>The data hooks\<close>

text \<open>
  C9. Each of the three data hooks (incoming headers, header block done, incoming body)
  makes one call of the matching handler of the Request object, with the request and the
  arguments it was given, unchanged, and returns the status the handler returns. The
  stream argument plays no part, and the state after the hook is the state before it with
  that one call added: the hooks keep nothing between events.
\<close>
theorem C9_hooks_forward:
  "s_s3_client_incoming_headers H strm header_block headers num_headers st =
     (incoming_headers_status H (request st) header_block headers num_headers,
      st\<lparr>calls := calls st @
            [Request_incoming_headers (request st) header_block headers num_headers]\<rparr>) \<and>
   s_s3_client_incoming_header_block_done H strm header_block st =
     (incoming_header_block_done_status H (request st) header_block,
      st\<lparr>calls := calls st @ [Request_incoming_header_block_done (request st) header_block]\<rparr>) \<and>
   s_s3_client_incoming_body H strm data st =
     (incoming_body_status H (request st) data,
      st\<lparr>calls := calls st @ [Request_incoming_body (request st) data]\<rparr>)"
  by (simp add: hook_defs pipeline_collab_defs)

subsection \<open>The response events of a stream\<close>

lemma dispatch_event_fields:
  "request (snd (dispatch_event H strm ev st)) = request st"
  "pending (snd (dispatch_event H strm ev st)) = pending st"
  "last_error (snd (dispatch_event H strm ev st)) = last_error st"
  by (cases ev; simp add: hook_defs pipeline_collab_defs)+

lemma dispatch_event_calls:
  "\<exists>c. calls (snd (dispatch_event H strm ev st)) = calls st @ [c] \<and>
       \<not> is_Request_finish c \<and> \<not> is_Request_stream_complete c"
  by (cases ev; simp add: hook_defs pipeline_collab_defs)

lemma deliver_response_fields:
  "request (deliver_response H strm evs st) = request st \<and>
   pending (deliver_response H strm evs st) = pending st \<and>
   last_error (deliver_response H strm evs st) = last_error st"
proof (induction evs arbitrary: st)
  case Nil
  show ?case by simp
next
  case (Cons ev evs)
  obtain status st' where d: "dispatch_event H strm ev st = (status, st')"
    by (cases "dispatch_event H strm ev st")
  from dispatch_event_fields [of H strm ev st] d
  have "request st' = request st" "pending st' = pending st" "last_error st' = last_error st"
    by simp_all
  with Cons.IH [of st'] d show ?case by simp
qed

lemma deliver_response_calls:
  "\<exists>ds. calls (deliver_response H strm evs st) = calls st @ ds \<and>
        filter is_Request_finish ds = [] \<and> filter is_Request_stream_complete ds = []"
proof (induction evs arbitrary: st)
  case Nil
  show ?case by simp
next
  case (Cons ev evs)
  obtain status st' where d: "dispatch_event H strm ev st = (status, st')"
    by (cases "dispatch_event H strm ev st")
  from dispatch_event_calls [of H strm ev st] d obtain c where
    c: "calls st' = calls st @ [c]" "\<not> is_Request_finish c" "\<not> is_Request_stream_complete c"
    by auto
  from Cons.IH [of st'] obtain ds where
    ds: "calls (deliver_response H strm evs st') = calls st' @ ds"
        "filter is_Request_finish ds = []" "filter is_Request_stream_complete ds = []"
    by blast
  show ?case
  proof (cases "status = AWS_OP_SUCCESS")
    case True
    with d c ds show ?thesis by simp
  next
    case False
    with d c show ?thesis by simp
  qed
qed

lemma deliver_response_filters:
  "filter is_Request_finish (calls (deliver_response H strm evs st)) =
     filter is_Request_finish (calls st)"
  "filter is_Request_stream_complete (calls (deliver_response H strm evs st)) =
     filter is_Request_stream_complete (calls st)"
  using deliver_response_calls [of H strm evs st] by auto

lemmas deliver_response_request = deliver_response_fields [THEN conjunct1]

subsection \<open>Finish\<close>

text \<open>
  C1, as stated, fails: when the signable cannot be built, \<^verbatim>\<open>s3_client_make_request\<close>
  returns \<^verbatim>\<open>AWS_OP_ERR\<close> to its caller and the Request object's finish is not called at all.
\<close>
theorem C1_counterexample:
  "run_status (run_pipeline (ex_env\<lparr>signable_new_result := None\<rparr>) ex_handlers ex_client ex_request) =
     Some AWS_OP_ERR \<and>
   finish_count
     (run_calls (run_pipeline (ex_env\<lparr>signable_new_result := None\<rparr>) ex_handlers ex_client ex_request)) = 0"
  by (simp add: eval_defs ex_pipeline_defs finish_count_def)

text \<open>
  C1, amended. For every run of the pipeline that returns: if the signable cannot be built
  or the signer rejects the request, \<^verbatim>\<open>s3_client_make_request\<close> returns \<^verbatim>\<open>AWS_OP_ERR\<close> and the
  Request object's finish is not called; in every other case it returns \<^verbatim>\<open>AWS_OP_SUCCESS\<close>
  and finish is called exactly once, whichever later stage fails, with the code of the
  first failing stage, or with the completion code of the exchange when none fails.
\<close>
theorem C1_finish_once_after_accepted_start:
  assumes "run_pipeline env H client req = Inr (rc, st)"
  shows "if signable_new_result env = None \<or> sign_request_result env \<noteq> 0
         then rc = AWS_OP_ERR \<and> finish_count (calls st) = 0
         else rc = AWS_OP_SUCCESS \<and> finish_count (calls st) = 1 \<and>
              filter is_Request_finish (calls st) =
                [Request_finish (request st) (expected_terminal_status env)]"
  using assms
  by (auto simp: run_defs expected_terminal_status_def finish_count_def Let_def
      deliver_response_filters deliver_response_request split: option.splits if_splits sum.splits)

theorem C1_finish_once_after_accepted_start_witness:
  "run_status (run_pipeline (ex_env\<lparr>acquire_error_code := 9\<rparr>) ex_handlers ex_client ex_request) =
     Some AWS_OP_SUCCESS \<and>
   filter is_Request_finish
     (run_calls (run_pipeline (ex_env\<lparr>acquire_error_code := 9\<rparr>) ex_handlers ex_client ex_request)) =
     [Request_finish (ex_request\<lparr>signable := Some 21\<rparr>) 9] \<and>
   run_status (run_pipeline (ex_env\<lparr>sign_request_result := 7\<rparr>) ex_handlers ex_client ex_request) =
     Some AWS_OP_ERR \<and>
   finish_count
     (run_calls (run_pipeline (ex_env\<lparr>sign_request_result := 7\<rparr>) ex_handlers ex_client ex_request)) = 0"
proof -
  obtain rc st where r:
      "run_pipeline (ex_env\<lparr>acquire_error_code := 9\<rparr>) ex_handlers ex_client ex_request =
         Inr (rc, st)"
    and v: "request st = ex_request\<lparr>signable := Some 21\<rparr>"
    by (simp add: eval_defs ex_pipeline_defs)
  have e: "expected_terminal_status (ex_env\<lparr>acquire_error_code := 9\<rparr>) = 9"
    by (simp add: expected_terminal_status_def ex_env_def AWS_OP_SUCCESS_def AWS_ERROR_SUCCESS_def)
  have a: "\<not> (signable_new_result (ex_env\<lparr>acquire_error_code := 9\<rparr>) = None \<or>
               sign_request_result (ex_env\<lparr>acquire_error_code := 9\<rparr>) \<noteq> 0)"
    by (simp add: ex_env_def)
  obtain rc' st' where r':
      "run_pipeline (ex_env\<lparr>sign_request_result := 7\<rparr>) ex_handlers ex_client ex_request =
         Inr (rc', st')"
    by (simp add: eval_defs ex_pipeline_defs)
  have a': "signable_new_result (ex_env\<lparr>sign_request_result := 7\<rparr>) = None \<or>
            sign_request_result (ex_env\<lparr>sign_request_result := 7\<rparr>) \<noteq> 0"
    by simp
  from C1_finish_once_after_accepted_start [OF r] C1_finish_once_after_accepted_start [OF r']
    r v e a r' a'
  show ?thesis
    by simp
qed

subsection \<open>Resources at Finish\<close>

text \<open>
  C4. The claim is that, whichever stage fails, what the earlier stages obtained (the
  signable and, once acquired, the connection) is released before or during the Finish
  call. The code misses the connection: in every run in which the connection is acquired
  and the creation of the stream then fails, the calls that follow the acquisition are the
  stream creation on that connection and the Finish call, nothing else. The connection
  is released by no call, and the request handed to Finish (its client, message and
  signable, with no stream) does not hold it.
\<close>
theorem C4_stream_creation_failure_keeps_connection:
  assumes "run_pipeline env H client req = Inr (rc, st)"
    and "signable_new_result env = Some sg" and "sign_request_result env = 0"
    and "signing_error_code env = AWS_OP_SUCCESS" and "apply_result env = 0"
    and "acquired_connection env = Some conn" and "acquire_error_code env = AWS_ERROR_SUCCESS"
    and "make_request_result env = None"
  shows "rc = AWS_OP_SUCCESS \<and>
         (\<exists>pre. calls st =
            pre @
            [Connection_manager_acquire_connection (connection_manager (req_client req)),
             Connection_make_request (Some conn)
               \<lparr>opt_request = message req,
                opt_on_response_headers = S_s3_client_incoming_headers,
                opt_on_response_header_block_done = S_s3_client_incoming_header_block_done,
                opt_on_response_body = S_s3_client_incoming_body,
                opt_on_complete = S_s3_client_stream_complete\<rparr>,
             Request_finish (req\<lparr>signable := Some sg, stream := None\<rparr>)
               (last_error_after_make_request env)])"
  using assms
  by (auto simp: run_defs Let_def split: option.splits if_splits sum.splits)

theorem C4_stream_creation_failure_keeps_connection_witness:
  "run_calls (run_pipeline (ex_env\<lparr>make_request_result := None, last_error_after_make_request := 10\<rparr>)
     ex_handlers ex_client ex_request) =
     [Signable_new_http_request (Some 9) 20,
      Sign_request_aws (Some 9) 21
        \<lparr>sc_config_type = AWS_SIGNING_CONFIG_AWS, sc_algorithm = AWS_SIGNING_ALGORITHM_V4,
         sc_credentials_provider = Some 2, sc_region = ''us-east-1'', sc_service = ''s3'',
         sc_date = 0, sc_signed_body_value = G_aws_signed_body_value_unsigned_payload,
         sc_signed_body_header = AWS_SBHT_X_AMZ_CONTENT_SHA256\<rparr>,
      Apply_signing_result_to_http_request 20 (Some 9) 22,
      Connection_manager_acquire_connection (Some 5),
      Connection_make_request (Some 23)
        \<lparr>opt_request = 20, opt_on_response_headers = S_s3_client_incoming_headers,
         opt_on_response_header_block_done = S_s3_client_incoming_header_block_done,
         opt_on_response_body = S_s3_client_incoming_body,
         opt_on_complete = S_s3_client_stream_complete\<rparr>,
      Request_finish (ex_request\<lparr>signable := Some 21, stream := None\<rparr>) 10]"
proof -
  obtain rc st where r:
      "run_pipeline (ex_env\<lparr>make_request_result := None, last_error_after_make_request := 10\<rparr>)
         ex_handlers ex_client ex_request = Inr (rc, st)"
    and v: "take 3 (calls st) =
      [Signable_new_http_request (Some 9) 20,
       Sign_request_aws (Some 9) 21
         \<lparr>sc_config_type = AWS_SIGNING_CONFIG_AWS, sc_algorithm = AWS_SIGNING_ALGORITHM_V4,
          sc_credentials_provider = Some 2, sc_region = ''us-east-1'', sc_service = ''s3'',
          sc_date = 0, sc_signed_body_value = G_aws_signed_body_value_unsigned_payload,
          sc_signed_body_header = AWS_SBHT_X_AMZ_CONTENT_SHA256\<rparr>,
       Apply_signing_result_to_http_request 20 (Some 9) 22]"
      "length (calls st) = 6"
    by (simp add: eval_defs ex_pipeline_defs)
  have h: "signable_new_result
             (ex_env\<lparr>make_request_result := None, last_error_after_make_request := 10\<rparr>) = Some 21"
    "sign_request_result
       (ex_env\<lparr>make_request_result := None, last_error_after_make_request := 10\<rparr>) = 0"
    "signing_error_code
       (ex_env\<lparr>make_request_result := None, last_error_after_make_request := 10\<rparr>) = AWS_OP_SUCCESS"
    "apply_result (ex_env\<lparr>make_request_result := None, last_error_after_make_request := 10\<rparr>) = 0"
    "acquired_connection
       (ex_env\<lparr>make_request_result := None, last_error_after_make_request := 10\<rparr>) = Some 23"
    "acquire_error_code
       (ex_env\<lparr>make_request_result := None, last_error_after_make_request := 10\<rparr>) =
       AWS_ERROR_SUCCESS"
    "make_request_result
       (ex_env\<lparr>make_request_result := None, last_error_after_make_request := 10\<rparr>) = None"
    by (simp_all add: ex_env_def AWS_OP_SUCCESS_def AWS_ERROR_SUCCESS_def)
  from C4_stream_creation_failure_keeps_connection [OF r h] obtain pre where
    c: "calls st =
          pre @
          [Connection_manager_acquire_connection (connection_manager (req_client ex_request)),
           Connection_make_request (Some 23)
             \<lparr>opt_request = message ex_request,
              opt_on_response_headers = S_s3_client_incoming_headers,
              opt_on_response_header_block_done = S_s3_client_incoming_header_block_done,
              opt_on_response_body = S_s3_client_incoming_body,
              opt_on_complete = S_s3_client_stream_complete\<rparr>,
           Request_finish (ex_request\<lparr>signable := Some 21, stream := None\<rparr>)
             (last_error_after_make_request
                (ex_env\<lparr>make_request_result := None, last_error_after_make_request := 10\<rparr>))]"
    by blast
  from c v have "length pre = 3" by simp
  with c v have "pre = take 3 (calls st)" by simp
  with c v r show ?thesis
    by (simp add: ex_request_def ex_client_def)
qed

subsection \<open>Completion of the exchange\<close>

text \<open>
  C5. For every run in which the stream is created and activated, and the exchange then
  completes with code \<open>E\<close> (the completion code of the collaborators), the last two calls
  of the run are the Request object's stream_complete with \<open>E\<close> and then its finish with
  the same \<open>E\<close>, and neither handler is called before.
\<close>
theorem C5_stream_error_to_stream_complete_then_finish:
  assumes "run_pipeline env H client req = Inr (rc, st)" and "exchange_runs env"
  shows "\<exists>pre. calls st =
           pre @ [Request_stream_complete (request st) (completion_error_code env),
                  Request_finish (request st) (completion_error_code env)] \<and>
           filter is_Request_stream_complete pre = [] \<and> filter is_Request_finish pre = []"
  using assms
  by (auto simp: run_defs exchange_runs_def Let_def deliver_response_filters
      deliver_response_request split: option.splits if_splits sum.splits)

theorem C5_stream_error_to_stream_complete_then_finish_witness:
  "exchange_runs (ex_env\<lparr>completion_error_code := 12\<rparr>) \<and>
   drop 9 (run_calls (run_pipeline (ex_env\<lparr>completion_error_code := 12\<rparr>)
             ex_handlers ex_client ex_request)) =
     [Request_stream_complete (ex_request\<lparr>signable := Some 21, stream := Some 24\<rparr>) 12,
      Request_finish (ex_request\<lparr>signable := Some 21, stream := Some 24\<rparr>) 12]"
proof -
  have h: "exchange_runs (ex_env\<lparr>completion_error_code := 12\<rparr>)"
    by (simp add: exchange_runs_def ex_env_def AWS_OP_SUCCESS_def AWS_ERROR_SUCCESS_def)
  obtain rc st where r:
      "run_pipeline (ex_env\<lparr>completion_error_code := 12\<rparr>) ex_handlers ex_client ex_request =
         Inr (rc, st)"
    and v: "request st = ex_request\<lparr>signable := Some 21, stream := Some 24\<rparr>"
           "length (calls st) = 11"
    by (simp add: eval_defs ex_pipeline_defs)
  from C5_stream_error_to_stream_complete_then_finish [OF r h] h r v show ?thesis
    by (auto simp: ex_env_def)
qed

subsection \<open>Failure of the signing stage\<close>

text \<open>
  C6. For every run in which the signing stage fails (the completion callback of the
  signer reports a code other than 0, or applying the signing result to the message
  fails), the Request object's stream_complete is never called, and the request's stream
  field is never written.
\<close>
theorem C6_no_stream_complete_after_signing_failure:
  assumes "run_pipeline env H client req = Inr (rc, st)" and "signing_fails env"
  shows "filter is_Request_stream_complete (calls st) = [] \<and> stream (request st) = stream req"
  using assms
  by (auto simp: run_defs signing_fails_def Let_def split: option.splits if_splits sum.splits)

theorem C6_no_stream_complete_after_signing_failure_witness:
  "signing_fails (ex_env\<lparr>apply_result := 1, last_error_after_apply := 8\<rparr>) \<and>
   filter is_Request_stream_complete
     (run_calls (run_pipeline (ex_env\<lparr>apply_result := 1, last_error_after_apply := 8\<rparr>)
        ex_handlers ex_client ex_request)) = [] \<and>
   filter is_Request_finish
     (run_calls (run_pipeline (ex_env\<lparr>apply_result := 1, last_error_after_apply := 8\<rparr>)
        ex_handlers ex_client ex_request)) = [Request_finish (ex_request\<lparr>signable := Some 21\<rparr>) 8]"
proof -
  have h: "signing_fails (ex_env\<lparr>apply_result := 1, last_error_after_apply := 8\<rparr>)"
    by (simp add: signing_fails_def ex_env_def)
  obtain rc st where r:
      "run_pipeline (ex_env\<lparr>apply_result := 1, last_error_after_apply := 8\<rparr>)
         ex_handlers ex_client ex_request = Inr (rc, st)"
    and v: "filter is_Request_finish (calls st) = [Request_finish (ex_request\<lparr>signable := Some 21\<rparr>) 8]"
    by (simp add: eval_defs ex_pipeline_defs)
  from C6_no_stream_complete_after_signing_failure [OF r h] h r v show ?thesis
    by simp
qed

end
